theory Spec2Isabelle
  imports Main "HOL-Library.Monad_Syntax" "HOL-Library.Word"
begin

section \<open>FuXLogger: the dispatch core of \<open>core/logger.py\<close>\<close>

text \<open>
  The development embeds class \<open>Logger\<close> of \<open>FuXLogger/core/logger.py\<close>. Objects that the
  logger shares by reference (handlers, the handler list, log records) live in an explicit
  store; every
  \<open>raise\<close> of the source is a value of type \<open>exn\<close>; a method returns its outcome together
  with the state it leaves behind, so that the state after a raise can be inspected.
\<close>

subsection \<open>Values\<close>

text \<open>A Python \<open>float\<close> is kept as its 64-bit pattern: the logger stores it and never computes
  with it. A Python \<open>bool\<close> is an \<open>int\<close> for \<open>isinstance\<close>, so \<open>IntNum\<close> covers it.\<close>

type_synonym pyfloat = "64 word"

datatype number = IntNum int | FloatNum pyfloat

text \<open>Modelled from the spec: \<open>models/log_level.py\<close> is not part of the sources. A level is
  "an ordered severity classification with a symbolic name"; the logger builds one with
  \<open>LogLevel("CUSTOM", new_threshold)\<close> and reads its \<open>name\<close>.\<close>

record LogLevel =
  level_name :: string
  level_value :: number

text \<open>Modelled from the spec: \<open>core/handlers.py\<close> is not part of the sources. A handler has a
  \<open>name\<close> "for lookup" and "an independent severity threshold", the attribute \<open>level\<close>;
  \<open>handler_class\<close> is what \<open>type(handler)\<close> prints as.\<close>

record Handler =
  handler_name :: string
  handler_level :: LogLevel
  handler_class :: string

text \<open>Handlers are objects: the handler list holds references, the store maps them to the
  object's attributes.\<close>

type_synonym ref = nat

datatype exn =
    InvalidConfigurationException string
  | InvalidEnvironmentException string
  | ValueError string
  | TypeError string
  | IndexError string
  | AttributeError string
  | LogQueueEmptyException
  | TimeoutError
  | CancelledError
  | ExternalException string

datatype outcome = Returned | Raised exn

datatype 'j Message = Text string | Structured 'j

text \<open>The record of one log event. The fields \<open>timestamp\<close>, \<open>utctime\<close>, \<open>threadid\<close>,
  \<open>processid\<close>, \<open>processName\<close>, \<open>threadName\<close>, \<open>stack_info\<close>, \<open>file\<close>, \<open>pathname\<close>, \<open>workdir\<close>,
  \<open>line\<close>, \<open>function\<close> and \<open>module\<close> are read from the running process; they are kept
  together as \<open>captured\<close>.\<close>

record ('c, 'j) LogRecord =
  record_name :: string
  record_level :: LogLevel
  levelName :: string
  time :: string
  captured :: 'c
  message :: "'j Message"

text \<open>The world outside the logger instance: the attributes of the handler objects, the list
  objects (a logger keeps the address of its handler list, so that two owners of one list
  see each other's changes) and the next free list address, the log records constructed so
  far (a record is referred to by its position here), the calls of \<open>Handler.handle\<close> made so far
  (handler and record, oldest first), the running event loop of the calling context if there
  is one, and the numbers of queues allocated, of worker threads started and of tasks
  created.\<close>

record ('c, 'j) world =
  heap :: "ref \<Rightarrow> Handler"
  list_objects :: "nat \<Rightarrow> ref list"
  next_list :: nat
  built :: "('c, 'j) LogRecord list"
  calls :: "(ref \<times> nat) list"
  running_loop :: "nat option"
  queues :: nat
  threads :: nat
  tasks :: nat

subsection \<open>Construction\<close>

text \<open>The instance dictionary while \<open>__init__\<close> runs: \<open>None\<close> is an attribute that has not been
  assigned. \<open>self_handlers\<close> is the address of the list object.\<close>

record instance_dict =
  self_name :: "string option"
  self_handlers :: "nat option"
  self_handlers_num :: "nat option"
  self_enqueue :: "bool option"
  self_is_async :: "bool option"
  self_uuid :: "nat option"
  self_only_handler :: "bool option"
  self_queue :: "nat list option"
  self_log_thread :: "nat option"
  self_async_queue :: "nat list option"
  self_loop :: "nat option"
  self_log_task :: "nat option"

definition blank :: instance_dict where
  "blank = \<lparr>self_name = None, self_handlers = None, self_handlers_num = None,
     self_enqueue = None, self_is_async = None, self_uuid = None, self_only_handler = None,
     self_queue = None, self_log_thread = None, self_async_queue = None, self_loop = None,
     self_log_task = None\<rparr>"

text \<open>The argument \<open>handlers\<close>: the address of a list object of the caller, or one handler.\<close>

datatype handlers_arg = HandlerList nat | SingleHandler ref

record init_args =
  arg_name :: string
  arg_handlers :: handlers_arg
  arg_enqueue :: bool
  arg_is_async :: bool
  arg_only_handler :: bool

text \<open>Lines 24 and 25 of \<open>__init__\<close>: a list is kept as the object it is, anything else is put
  into a new list.\<close>

definition wrap_handlers :: "handlers_arg \<Rightarrow> ('c, 'j) world \<Rightarrow> nat \<times> ('c, 'j) world" where
  "wrap_handlers handlers w =
     (case handlers of
        HandlerList a \<Rightarrow> (a, w)
      | SingleHandler h \<Rightarrow>
          (next_list w,
           w\<lparr>list_objects := (list_objects w)(next_list w := [h]), next_list := Suc (next_list w)\<rparr>))"

text \<open>\<open>start_async_logging\<close>, as \<open>__init__\<close> calls it on the instance under construction.\<close>

definition start_async_logging ::
  "instance_dict \<Rightarrow> ('c, 'j) world \<Rightarrow> outcome \<times> instance_dict \<times> ('c, 'j) world" where
  "start_async_logging self w =
     (case self_is_async self of
        None \<Rightarrow> (Raised (AttributeError ''is_async''), self, w)
      | Some a \<Rightarrow>
          if \<not> a then (Returned, self, w)
          else (case self_loop self of
                  None \<Rightarrow> (Raised (AttributeError ''loop''), self, w)
                | Some lp \<Rightarrow>
                    (Returned, self\<lparr>self_log_task := Some (tasks w)\<rparr>,
                     w\<lparr>tasks := Suc (tasks w)\<rparr>)))"

text \<open>\<open>Logger.__init__\<close>; \<open>u\<close> is the value \<open>uuid.uuid4()\<close> returns. A \<open>RuntimeError\<close> can only
  come from \<open>asyncio.get_running_loop()\<close>, when no loop is running.\<close>

definition Logger_init ::
  "init_args \<Rightarrow> nat \<Rightarrow> ('c, 'j) world \<Rightarrow> instance_dict
     \<Rightarrow> outcome \<times> instance_dict \<times> ('c, 'j) world" where
  "Logger_init args u w0 self0 =
     (case wrap_handlers (arg_handlers args) w0 of (handlers, w) \<Rightarrow>
      let self1 = self0\<lparr>self_name := Some (arg_name args)\<rparr>;
          self2 = self1\<lparr>self_handlers := Some handlers\<rparr>;
          self3 = self2\<lparr>self_handlers_num := Some (length (list_objects w handlers))\<rparr>;
          self4 = self3\<lparr>self_enqueue := Some (arg_enqueue args)\<rparr>;
          self5 = self4\<lparr>self_is_async := Some (arg_is_async args)\<rparr>;
          self6 = self5\<lparr>self_uuid := Some u\<rparr>;
          self7 = self6\<lparr>self_only_handler := Some (arg_only_handler args)\<rparr>
      in if arg_enqueue args \<and> arg_is_async args then
           (Raised (InvalidConfigurationException
                      ''Cannot use enqueue and is_async at the same time''), self7, w)
         else if arg_enqueue args then
           (Returned,
            self7\<lparr>self_queue := Some [], self_log_thread := Some (threads w)\<rparr>,
            w\<lparr>queues := Suc (queues w), threads := Suc (threads w)\<rparr>)
         else if arg_is_async args then
           (let self8 = self7\<lparr>self_async_queue := Some []\<rparr>;
                w1 = w\<lparr>queues := Suc (queues w)\<rparr>
            in case running_loop w1 of
                 None \<Rightarrow>
                   (Raised (InvalidEnvironmentException
                              ''Cannot use is_async outside of an asyncio event loop''),
                    self8, w1)
               | Some lp \<Rightarrow> start_async_logging (self8\<lparr>self_loop := Some lp\<rparr>) w1)
         else (Returned, self7, w))"

text \<open>A constructed logger. The attributes assigned on every path of \<open>__init__\<close> are plain
  fields; \<open>queue\<close>, \<open>log_thread\<close>, \<open>async_queue\<close>, \<open>loop\<close> and \<open>log_task\<close> exist only in the mode
  that assigns them. \<open>handlers\<close> is the address of the list object; a queue is the list of the
  records waiting in it, oldest first.\<close>

record Logger =
  name :: string
  handlers :: nat
  handlers_num :: nat
  enqueue :: bool
  is_async :: bool
  uuid :: nat
  only_handler :: bool
  queue :: "nat list option"
  log_thread :: "nat option"
  async_queue :: "nat list option"
  loop :: "nat option"
  log_task :: "nat option"

definition as_Logger :: "instance_dict \<Rightarrow> Logger option" where
  "as_Logger self =
     do {
       n \<leftarrow> self_name self;
       hs \<leftarrow> self_handlers self;
       k \<leftarrow> self_handlers_num self;
       e \<leftarrow> self_enqueue self;
       a \<leftarrow> self_is_async self;
       u \<leftarrow> self_uuid self;
       oh \<leftarrow> self_only_handler self;
       Some \<lparr>name = n, handlers = hs, handlers_num = k, enqueue = e, is_async = a, uuid = u,
             only_handler = oh, queue = self_queue self, log_thread = self_log_thread self,
             async_queue = self_async_queue self, loop = self_loop self,
             log_task = self_log_task self\<rparr>
     }"

text \<open>The expression \<open>Logger(...)\<close>: a fresh instance is handed to \<open>__init__\<close>, and the caller
  receives it only when \<open>__init__\<close> returns.\<close>

definition Logger_new ::
  "init_args \<Rightarrow> nat \<Rightarrow> ('c, 'j) world \<Rightarrow> (exn + Logger) \<times> ('c, 'j) world" where
  "Logger_new args u w =
     (case Logger_init args u w blank of
        (Raised e, self, w') \<Rightarrow> (Inl e, w')
      | (Returned, self, w') \<Rightarrow>
          (case as_Logger self of
             None \<Rightarrow> (Inl (AttributeError ''uninitialised''), w')
           | Some l \<Rightarrow> (Inr l, w')))"

subsection \<open>Collaborators\<close>

datatype std_level = TRACE | DEBUG | INFO | WARN | ERROR | FATAL

text \<open>The code that \<open>logger.py\<close> imports and that is not part of the sources is a parameter of
  the model: the level registry (\<open>getLevel\<close>, which may raise), the predefined levels
  \<open>Level.TRACE\<close> ... \<open>Level.FATAL\<close>, the reading of the call site, the clocks and the thread
  and process identity (\<open>capture\<close>, by the number of records built before), \<open>Handler.handle\<close>
  (given the handler, its attributes, the record and the store of records; \<open>None\<close> when it
  returns, \<open>Some e\<close> when it raises \<open>e\<close>), \<open>Handler.__eq__\<close> and \<open>ExtractException\<close> applied to
  \<open>sys.exc_info()\<close> (\<open>None\<close> when no exception is being handled).\<close>

record ('c, 'j, 'x) collaborators =
  getLevel :: "string \<Rightarrow> exn + LogLevel"
  Level :: "std_level \<Rightarrow> LogLevel"
  capture :: "nat \<Rightarrow> 'c"
  handle :: "ref \<Rightarrow> Handler \<Rightarrow> nat \<Rightarrow> ('c, 'j) LogRecord list \<Rightarrow> exn option"
  handler_eq :: "Handler \<Rightarrow> Handler \<Rightarrow> bool"
  ExtractException :: "'x option \<Rightarrow> string"

subsection \<open>Python list operations\<close>

text \<open>The position that index \<open>i\<close> denotes in a list of length \<open>n\<close>; \<open>None\<close> is \<open>IndexError\<close>.\<close>

definition list_index :: "nat \<Rightarrow> int \<Rightarrow> nat option" where
  "list_index n i =
     (if 0 \<le> i \<and> i < int n then Some (nat i)
      else if - int n \<le> i \<and> i < 0 then Some (nat (int n + i))
      else None)"

text \<open>\<open>list.remove\<close>: drop the first element that is the argument or equals it; \<open>None\<close> is
  \<open>ValueError\<close>.\<close>

primrec list_remove :: "('a \<Rightarrow> bool) \<Rightarrow> 'a list \<Rightarrow> 'a list option" where
  "list_remove same [] = None"
| "list_remove same (y # ys) =
     (if same y then Some ys else map_option ((#) y) (list_remove same ys))"

definition same_handler ::
  "('c, 'j, 'x) collaborators \<Rightarrow> ('c, 'j) world \<Rightarrow> ref \<Rightarrow> ref \<Rightarrow> bool" where
  "same_handler C w x y = (y = x \<or> handler_eq C (heap w y) (heap w x))"

subsection \<open>Handler management\<close>

datatype selector = ByHandler ref | ByIndex int | ByName string | ByOther string

datatype threshold = LevelObject LogLevel | Raw number

definition does_not_exist :: "string \<Rightarrow> string" where
  "does_not_exist s = ''Handler '' @ [CHR 0x22] @ s @ [CHR 0x22] @ '' does not exist''"

definition arg_handler_must_be :: "string \<Rightarrow> string" where
  "arg_handler_must_be kinds =
     ''Arg '' @ [CHR 0x22] @ ''handler'' @ [CHR 0x22] @ '' must be a '' @ kinds
       @ '' object, not ''"

definition set_level :: "ref \<Rightarrow> LogLevel \<Rightarrow> ('c, 'j) world \<Rightarrow> ('c, 'j) world" where
  "set_level h lv w = w\<lparr>heap := (heap w)(h := (heap w h)\<lparr>handler_level := lv\<rparr>)\<rparr>"

text \<open>\<open>Logger.setLevelThreshold\<close>. A selector that is neither an \<open>int\<close> nor a string, a handler
  object among them, reaches the final \<open>else\<close>; \<open>ByOther\<close> carries what the type of such an
  argument prints as.\<close>

definition setLevelThreshold ::
  "Logger \<Rightarrow> selector \<Rightarrow> threshold \<Rightarrow> ('c, 'j) world \<Rightarrow> outcome \<times> Logger \<times> ('c, 'j) world" where
  "setLevelThreshold self handler new_threshold w =
     (let new_threshold' =
            (case new_threshold of
               Raw x \<Rightarrow> \<lparr>level_name = ''CUSTOM'', level_value = x\<rparr>
             | LevelObject lv \<Rightarrow> lv)
      in case handler of
           ByIndex i \<Rightarrow>
             (case list_index (length (list_objects w (handlers self))) i of
                None \<Rightarrow> (Raised (IndexError ''list index out of range''), self, w)
              | Some k \<Rightarrow>
                  (Returned, self\<lparr>handlers_num := length (list_objects w (handlers self))\<rparr>,
                   set_level (list_objects w (handlers self) ! k) new_threshold' w))
         | ByName s \<Rightarrow>
             (case find (\<lambda>hdl. handler_name (heap w hdl) = s) (list_objects w (handlers self)) of
                None \<Rightarrow> (Raised (ValueError (does_not_exist s)), self, w)
              | Some hdl \<Rightarrow>
                  (Returned, self\<lparr>handlers_num := length (list_objects w (handlers self))\<rparr>,
                   set_level hdl new_threshold' w))
         | ByHandler h \<Rightarrow>
             (Raised (TypeError (arg_handler_must_be ''LogLevel|int|float''
                                  @ handler_class (heap w h))), self, w)
         | ByOther t \<Rightarrow>
             (Raised (TypeError (arg_handler_must_be ''LogLevel|int|float'' @ t)), self, w))"

text \<open>The list object of the logger is changed in place, then its length is read back.\<close>

definition store_handlers ::
  "Logger \<Rightarrow> ref list \<Rightarrow> ('c, 'j) world \<Rightarrow> Logger \<times> ('c, 'j) world" where
  "store_handlers self hs w =
     (let w1 = w\<lparr>list_objects := (list_objects w)(handlers self := hs)\<rparr>
      in (self\<lparr>handlers_num := length (list_objects w1 (handlers self))\<rparr>, w1))"

text \<open>\<open>Logger.addHandler\<close>.\<close>

definition addHandler :: "Logger \<Rightarrow> ref \<Rightarrow> ('c, 'j) world \<Rightarrow> Logger \<times> ('c, 'j) world" where
  "addHandler self handler w = store_handlers self (list_objects w (handlers self) @ [handler]) w"

text \<open>\<open>Logger.removeHandler\<close>.\<close>

definition removeHandler ::
  "('c, 'j, 'x) collaborators \<Rightarrow> Logger \<Rightarrow> selector \<Rightarrow> ('c, 'j) world
     \<Rightarrow> outcome \<times> Logger \<times> ('c, 'j) world" where
  "removeHandler C self handler w =
     (let removed = (\<lambda>hs. case store_handlers self hs w of (self1, w1) \<Rightarrow> (Returned, self1, w1));
          not_in_list = (Raised (ValueError ''list.remove(x): x not in list''), self, w)
      in case handler of
           ByHandler h \<Rightarrow>
             (case list_remove (same_handler C w h) (list_objects w (handlers self)) of
                None \<Rightarrow> not_in_list
              | Some hs \<Rightarrow> removed hs)
         | ByIndex i \<Rightarrow>
             (case list_index (length (list_objects w (handlers self))) i of
                None \<Rightarrow> (Raised (IndexError ''list assignment index out of range''), self, w)
              | Some k \<Rightarrow>
                  removed (take k (list_objects w (handlers self))
                           @ drop (Suc k) (list_objects w (handlers self))))
         | ByName s \<Rightarrow>
             (case find (\<lambda>hdl. handler_name (heap w hdl) = s) (list_objects w (handlers self)) of
                None \<Rightarrow> (Raised (ValueError (does_not_exist s)), self, w)
              | Some hdl \<Rightarrow>
                  (case list_remove (same_handler C w hdl) (list_objects w (handlers self)) of
                     None \<Rightarrow> not_in_list
                   | Some hs \<Rightarrow> removed hs))
         | ByOther t \<Rightarrow>
             (Raised (TypeError (arg_handler_must_be ''Handler|int|str'' @ t)), self, w))"

subsection \<open>Building and dispatching records\<close>

datatype level_arg = AsLevel LogLevel | AsName string

text \<open>\<open>Logger.__makeRecord\<close>: the new record is appended to the store and its reference
  returned.\<close>

definition Logger__makeRecord ::
  "('c, 'j, 'x) collaborators \<Rightarrow> Logger \<Rightarrow> 'j Message \<Rightarrow> level_arg \<Rightarrow> ('c, 'j) world
     \<Rightarrow> (exn + nat) \<times> ('c, 'j) world" where
  "Logger__makeRecord C self msg level w =
     (case (case level of AsName s \<Rightarrow> getLevel C s | AsLevel lv \<Rightarrow> Inr lv) of
        Inl e \<Rightarrow> (Inl e, w)
      | Inr lv \<Rightarrow>
          (Inr (length (built w)),
           w\<lparr>built := built w @
                [\<lparr>record_name = name self, record_level = lv, levelName = level_name lv,
                  time = [], captured = capture C (length (built w)), message = msg\<rparr>]\<rparr>))"

text \<open>One call \<open>handler.handle(record)\<close>.\<close>

definition call_handle ::
  "('c, 'j, 'x) collaborators \<Rightarrow> ref \<Rightarrow> nat \<Rightarrow> ('c, 'j) world \<Rightarrow> exn option \<times> ('c, 'j) world" where
  "call_handle C h r w = (handle C h (heap w h) r (built w), w\<lparr>calls := calls w @ [(h, r)]\<rparr>)"

text \<open>The loop \<open>for handler in self.handlers: handler.handle(self.__makeRecord(message, level))\<close>
  of \<open>__log\<close>.\<close>

fun dispatch ::
  "('c, 'j, 'x) collaborators \<Rightarrow> Logger \<Rightarrow> level_arg \<Rightarrow> 'j Message \<Rightarrow> ref list \<Rightarrow> ('c, 'j) world
     \<Rightarrow> outcome \<times> ('c, 'j) world" where
  "dispatch C self level msg [] w = (Returned, w)"
| "dispatch C self level msg (h # hs) w =
     (case Logger__makeRecord C self msg level w of
        (Inl e, w1) \<Rightarrow> (Raised e, w1)
      | (Inr r, w1) \<Rightarrow>
          (case call_handle C h r w1 of
             (Some e, w2) \<Rightarrow> (Raised e, w2)
           | (None, w2) \<Rightarrow> dispatch C self level msg hs w2))"



text \<open>\<open>Logger.__log\<close>. \<open>LogQueue.put\<close> and \<open>asyncio.Queue.put_nowait\<close> on an unbounded queue append
  the record. The queue attribute is looked up before the record is built.\<close>

definition Logger__log ::
  "('c, 'j, 'x) collaborators \<Rightarrow> Logger \<Rightarrow> level_arg \<Rightarrow> 'j Message \<Rightarrow> ('c, 'j) world
     \<Rightarrow> outcome \<times> Logger \<times> ('c, 'j) world" where
  "Logger__log C self level msg w =
     (if handlers_num self = 0 then
        (Raised (ValueError ''Logger needs at lease one handler''), self, w)
      else if enqueue self then
        (case queue self of
           None \<Rightarrow> (Raised (AttributeError ''queue''), self, w)
         | Some q \<Rightarrow>
             (case Logger__makeRecord C self msg level w of
                (Inl e, w1) \<Rightarrow> (Raised e, self, w1)
              | (Inr r, w1) \<Rightarrow> (Returned, self\<lparr>queue := Some (q @ [r])\<rparr>, w1)))
      else if is_async self then
        (case async_queue self of
           None \<Rightarrow> (Raised (AttributeError ''async_queue''), self, w)
         | Some q \<Rightarrow>
             (case Logger__makeRecord C self msg level w of
                (Inl e, w1) \<Rightarrow> (Raised e, self, w1)
              | (Inr r, w1) \<Rightarrow> (Returned, self\<lparr>async_queue := Some (q @ [r])\<rparr>, w1)))
      else
        (case dispatch C self level msg (list_objects w (handlers self)) w of
           (out, w1) \<Rightarrow> (out, self, w1)))"

subsection \<open>The workers\<close>




subsection \<open>The public logging methods\<close>

definition exception ::
  "('c, 'j, 'x) collaborators \<Rightarrow> Logger \<Rightarrow> string \<Rightarrow> bool \<Rightarrow> 'x option \<Rightarrow> ('c, 'j) world
     \<Rightarrow> outcome \<times> Logger \<times> ('c, 'j) world" where
  "exception C self msg is_fatal exc_info w =
     (let err_msg = ExtractException C exc_info;
          logerr_msg = msg @ [CHR 0x0A] @ err_msg
      in if is_fatal then Logger__log C self (AsLevel (Level C FATAL)) (Text logerr_msg) w
         else Logger__log C self (AsLevel (Level C ERROR)) (Text logerr_msg) w)"

definition log ::
  "('c, 'j, 'x) collaborators \<Rightarrow> Logger \<Rightarrow> level_arg \<Rightarrow> 'j Message \<Rightarrow> ('c, 'j) world
     \<Rightarrow> outcome \<times> Logger \<times> ('c, 'j) world" where
  "log C self level msg w = Logger__log C self level msg w"

definition trace ::
  "('c, 'j, 'x) collaborators \<Rightarrow> Logger \<Rightarrow> 'j Message \<Rightarrow> ('c, 'j) world
     \<Rightarrow> outcome \<times> Logger \<times> ('c, 'j) world" where
  "trace C self msg w = Logger__log C self (AsLevel (Level C TRACE)) msg w"

definition debug ::
  "('c, 'j, 'x) collaborators \<Rightarrow> Logger \<Rightarrow> 'j Message \<Rightarrow> ('c, 'j) world
     \<Rightarrow> outcome \<times> Logger \<times> ('c, 'j) world" where
  "debug C self msg w = Logger__log C self (AsLevel (Level C DEBUG)) msg w"

definition info ::
  "('c, 'j, 'x) collaborators \<Rightarrow> Logger \<Rightarrow> 'j Message \<Rightarrow> ('c, 'j) world
     \<Rightarrow> outcome \<times> Logger \<times> ('c, 'j) world" where
  "info C self msg w = Logger__log C self (AsLevel (Level C INFO)) msg w"

definition warning ::
  "('c, 'j, 'x) collaborators \<Rightarrow> Logger \<Rightarrow> 'j Message \<Rightarrow> ('c, 'j) world
     \<Rightarrow> outcome \<times> Logger \<times> ('c, 'j) world" where
  "warning C self msg w = Logger__log C self (AsLevel (Level C WARN)) msg w"

definition error ::
  "('c, 'j, 'x) collaborators \<Rightarrow> Logger \<Rightarrow> 'j Message \<Rightarrow> ('c, 'j) world
     \<Rightarrow> outcome \<times> Logger \<times> ('c, 'j) world" where
  "error C self msg w = Logger__log C self (AsLevel (Level C ERROR)) msg w"

definition fatal ::
  "('c, 'j, 'x) collaborators \<Rightarrow> Logger \<Rightarrow> 'j Message \<Rightarrow> ('c, 'j) world
     \<Rightarrow> outcome \<times> Logger \<times> ('c, 'j) world" where
  "fatal C self msg w = Logger__log C self (AsLevel (Level C FATAL)) msg w"

subsection \<open>Sequences of calls on one logger\<close>

datatype ('j, 'x) call =
    Call_addHandler ref
  | Call_removeHandler selector
  | Call_setLevelThreshold selector threshold
  | Call_log level_arg "'j Message"
  | Call_trace "'j Message"
  | Call_debug "'j Message"
  | Call_info "'j Message"
  | Call_warning "'j Message"
  | Call_error "'j Message"
  | Call_fatal "'j Message"
  | Call_exception string bool "'x option"

fun perform ::
  "('c, 'j, 'x) collaborators \<Rightarrow> ('j, 'x) call \<Rightarrow> Logger \<Rightarrow> ('c, 'j) world
     \<Rightarrow> outcome \<times> Logger \<times> ('c, 'j) world" where
  "perform C (Call_addHandler h) self w =
     (case addHandler self h w of (self1, w1) \<Rightarrow> (Returned, self1, w1))"
| "perform C (Call_removeHandler sel) self w = removeHandler C self sel w"
| "perform C (Call_setLevelThreshold sel thr) self w = setLevelThreshold self sel thr w"
| "perform C (Call_log level msg) self w = log C self level msg w"
| "perform C (Call_trace msg) self w = trace C self msg w"
| "perform C (Call_debug msg) self w = debug C self msg w"
| "perform C (Call_info msg) self w = info C self msg w"
| "perform C (Call_warning msg) self w = warning C self msg w"
| "perform C (Call_error msg) self w = error C self msg w"
| "perform C (Call_fatal msg) self w = fatal C self msg w"
| "perform C (Call_exception msg is_fatal exc_info) self w =
     exception C self msg is_fatal exc_info w"

text \<open>The calls are made one after the other on one logger by a caller that catches what they
  raise; each starts in the state the one before left behind, and nothing else touches the
  logger's list object in between.\<close>

fun run_calls ::
  "('c, 'j, 'x) collaborators \<Rightarrow> ('j, 'x) call list \<Rightarrow> Logger \<Rightarrow> ('c, 'j) world
     \<Rightarrow> Logger \<times> ('c, 'j) world" where
  "run_calls C [] self w = (self, w)"
| "run_calls C (c # cs) self w =
     (case perform C c self w of (out, self1, w1) \<Rightarrow> run_calls C cs self1 w1)"

subsection \<open>The worker thread beside its producers\<close>


text \<open>What happens to a logger in thread-backed mode, in the order in which it happens: a
  producer calls \<open>log\<close> (and catches what it raises), or the worker thread makes one round of
  its loop, with the main thread alive or not at its timeout. Any interleaving of producers
  and worker is such a sequence; a worker that has stopped makes no round.\<close>

datatype 'j event = Log level_arg "'j Message" | Round bool





subsection \<open>What construction establishes\<close>

text \<open>The cached count agrees with the handler list, and the queue of the selected mode
  exists.\<close>

definition well_formed :: "Logger \<Rightarrow> ('c, 'j) world \<Rightarrow> bool" where
  "well_formed self w \<longleftrightarrow>
     handlers_num self = length (list_objects w (handlers self))
     \<and> (enqueue self \<longrightarrow> queue self \<noteq> None)
     \<and> (is_async self \<longrightarrow> async_queue self \<noteq> None)"


subsection \<open>Concrete inputs\<close>

definition INFO_level :: LogLevel where
  "INFO_level = \<lparr>level_name = ''INFO'', level_value = IntNum 20\<rparr>"


definition FATAL_level :: LogLevel where
  "FATAL_level = \<lparr>level_name = ''FATAL'', level_value = IntNum 50\<rparr>"

definition ERROR_level :: LogLevel where
  "ERROR_level = \<lparr>level_name = ''ERROR'', level_value = IntNum 40\<rparr>"

definition standard_level :: "std_level \<Rightarrow> LogLevel" where
  "standard_level k = (if k = FATAL then FATAL_level else if k = ERROR then ERROR_level
                       else INFO_level)"

definition console_heap :: "ref \<Rightarrow> Handler" where
  "console_heap r = \<lparr>handler_name = (if r = 0 then ''console'' else ''file''),
     handler_level = INFO_level, handler_class = ''StreamHandler''\<rparr>"

text \<open>A world in which the caller holds the list \<open>[0, 1]\<close> of two handlers at address \<open>0\<close>.\<close>

definition quiet_world :: "(unit, unit) world" where
  "quiet_world = \<lparr>heap = console_heap, list_objects = (\<lambda>a. if a = 0 then [0, 1] else []),
     next_list = 1, built = [], calls = [], running_loop = None,
     queues = 0, threads = 0, tasks = 0\<rparr>"

definition both_modes :: init_args where
  "both_modes = \<lparr>arg_name = ''app'', arg_handlers = HandlerList 0, arg_enqueue = True,
     arg_is_async = True, arg_only_handler = False\<rparr>"

definition loop_mode :: init_args where
  "loop_mode = \<lparr>arg_name = ''app'', arg_handlers = HandlerList 0, arg_enqueue = False,
     arg_is_async = True, arg_only_handler = False\<rparr>"

definition fails_with_environment_error :: "exn + Logger \<Rightarrow> bool" where
  "fails_with_environment_error r =
     (case r of Inl (InvalidEnvironmentException m) \<Rightarrow> True | _ \<Rightarrow> False)"

definition sync_mode :: init_args where
  "sync_mode = \<lparr>arg_name = ''app'', arg_handlers = HandlerList 0, arg_enqueue = False,
     arg_is_async = False, arg_only_handler = False\<rparr>"

definition sync_logger :: Logger where
  "sync_logger = \<lparr>name = ''app'', handlers = 0, handlers_num = 2, enqueue = False,
     is_async = False, uuid = 7, only_handler = False, queue = None, log_thread = None,
     async_queue = None, loop = None, log_task = None\<rparr>"

text \<open>A second logger built on the same list object.\<close>

definition other_mode :: init_args where
  "other_mode = \<lparr>arg_name = ''other'', arg_handlers = HandlerList 0, arg_enqueue = False,
     arg_is_async = False, arg_only_handler = False\<rparr>"

definition other_logger :: Logger where
  "other_logger = \<lparr>name = ''other'', handlers = 0, handlers_num = 2, enqueue = False,
     is_async = False, uuid = 8, only_handler = False, queue = None, log_thread = None,
     async_queue = None, loop = None, log_task = None\<rparr>"

definition emptied_world :: "(unit, unit) world" where
  "emptied_world = quiet_world\<lparr>list_objects := (list_objects quiet_world)(0 := [])\<rparr>"





text \<open>Collaborators whose handlers always return; equality of handlers is identity.\<close>

definition plain :: "(unit, unit, unit) collaborators" where
  "plain = \<lparr>getLevel = (\<lambda>s. Inr INFO_level), Level = standard_level,
     capture = (\<lambda>n. ()), handle = (\<lambda>h a r bs. None), handler_eq = (\<lambda>a b. False),
     ExtractException = (\<lambda>x. [])\<rparr>"





section \<open>Properties\<close>

subsection \<open>Construction with conflicting modes\<close>

text \<open>
  C2, as stated, asks that a construction with \<open>enqueue\<close> and \<open>is_async\<close> both set leaves the
  instance without any assigned attribute. \<open>__init__\<close> assigns \<open>name\<close>, \<open>handlers\<close>,
  \<open>handlers_num\<close>, \<open>enqueue\<close>, \<open>is_async\<close>, \<open>uuid\<close> and \<open>only_handler\<close> before it tests the
  flags, so the instance it leaves behind is not the blank one.
\<close>

theorem init_conflict_assigns_fields:
  "fst (snd (Logger_init both_modes 7 quiet_world blank)) \<noteq> blank"
proof
  assume "fst (snd (Logger_init both_modes 7 quiet_world blank)) = blank"
  then have "self_name (fst (snd (Logger_init both_modes 7 quiet_world blank))) = self_name blank"
    by simp
  then show False
    by (simp add: Logger_init_def wrap_handlers_def both_modes_def blank_def Let_def)
qed

text \<open>
  C2, amended: a construction with both \<open>enqueue\<close> and \<open>is_async\<close> set always fails with the
  configuration error, the caller receives no instance, no queue is allocated and no worker
  thread or task is started (the attributes \<open>queue\<close>, \<open>log_thread\<close>, \<open>async_queue\<close>, \<open>loop\<close>,
  \<open>log_task\<close> stay unassigned and the world is the one \<open>__init__\<close> found, but for the list that
  line 25 wraps around a single handler); the seven plain attributes have already been
  assigned on the discarded instance when the error is raised.
\<close>

theorem init_conflict_rejected:
  assumes "arg_enqueue args" and "arg_is_async args"
  shows "Logger_init args u w blank =
           (Raised (InvalidConfigurationException
                      ''Cannot use enqueue and is_async at the same time''),
            blank\<lparr>self_name := Some (arg_name args),
                  self_handlers := Some (case arg_handlers args of
                                           HandlerList a \<Rightarrow> a | SingleHandler h \<Rightarrow> next_list w),
                  self_handlers_num := Some (case arg_handlers args of
                                           HandlerList a \<Rightarrow> length (list_objects w a)
                                         | SingleHandler h \<Rightarrow> 1),
                  self_enqueue := Some True, self_is_async := Some True,
                  self_uuid := Some u, self_only_handler := Some (arg_only_handler args)\<rparr>,
            case arg_handlers args of
              HandlerList a \<Rightarrow> w
            | SingleHandler h \<Rightarrow>
                w\<lparr>list_objects := (list_objects w)(next_list w := [h]), next_list := Suc (next_list w)\<rparr>)
         \<and> Logger_new args u w =
             (Inl (InvalidConfigurationException
                     ''Cannot use enqueue and is_async at the same time''),
              case arg_handlers args of
                HandlerList a \<Rightarrow> w
              | SingleHandler h \<Rightarrow>
                  w\<lparr>list_objects := (list_objects w)(next_list w := [h]), next_list := Suc (next_list w)\<rparr>)"
  using assms
  by (simp add: Logger_init_def Logger_new_def wrap_handlers_def Let_def
      split: handlers_arg.splits)

theorem init_conflict_rejected_witness:
  "arg_enqueue both_modes \<and> arg_is_async both_modes
   \<and> Logger_new both_modes 7 quiet_world =
       (Inl (InvalidConfigurationException
               ''Cannot use enqueue and is_async at the same time''), quiet_world)"
  using init_conflict_rejected [of both_modes 7 quiet_world]
  by (simp add: both_modes_def)

subsection \<open>Loop-backed construction without a running event loop\<close>

text \<open>
  C10, as stated, promises the environment error for every construction with \<open>is_async\<close>
  set while no event loop runs. When \<open>enqueue\<close> is set too, the flag test comes first and the
  construction fails with the configuration error instead.
\<close>

theorem init_no_loop_conflict_not_environment_error:
  "arg_is_async both_modes \<and> running_loop quiet_world = None
   \<and> \<not> fails_with_environment_error (fst (Logger_new both_modes 7 quiet_world))"
  by (simp add: Logger_new_def Logger_init_def wrap_handlers_def both_modes_def quiet_world_def
      Let_def fails_with_environment_error_def)

text \<open>
  C10, amended: a construction with \<open>is_async\<close> set while no event loop runs always fails and
  the caller receives no logger (it never falls back to synchronous mode): with the
  environment error when \<open>enqueue\<close> is not set, with the configuration error when it is.
\<close>

theorem init_no_loop_rejected:
  assumes "arg_is_async args" and "running_loop w = None"
  shows "fst (Logger_new args u w) =
           Inl (if arg_enqueue args
                then InvalidConfigurationException
                       ''Cannot use enqueue and is_async at the same time''
                else InvalidEnvironmentException
                       ''Cannot use is_async outside of an asyncio event loop'')"
  using assms
  by (simp add: Logger_new_def Logger_init_def wrap_handlers_def Let_def
      split: handlers_arg.splits)

theorem init_no_loop_rejected_witness:
  "arg_is_async loop_mode \<and> running_loop quiet_world = None
   \<and> fst (Logger_new loop_mode 7 quiet_world) =
       Inl (InvalidEnvironmentException
              ''Cannot use is_async outside of an asyncio event loop'')"
  using init_no_loop_rejected [of loop_mode quiet_world 7]
  by (simp add: loop_mode_def quiet_world_def)

subsection \<open>The cached handler count\<close>

lemma Logger_new_well_formed:
  assumes "Logger_new args u w = (Inr l, w')"
  shows "well_formed l w'"
proof -
  obtain out self w1 where i: "Logger_init args u w blank = (out, self, w1)"
    by (cases "Logger_init args u w blank") auto
  with assms obtain ok: "out = Returned" and l: "as_Logger self = Some l" and w: "w' = w1"
    by (auto simp: Logger_new_def split: outcome.splits option.splits)
  from i ok have
    "(\<exists>a. self_handlers self = Some a \<and> self_handlers_num self = Some (length (list_objects w1 a)))
     \<and> (self_enqueue self = Some True \<longrightarrow> self_queue self \<noteq> None)
     \<and> (self_is_async self = Some True \<longrightarrow> self_async_queue self \<noteq> None)"
    by (auto simp: Logger_init_def start_async_logging_def wrap_handlers_def blank_def Let_def
        split: if_splits option.splits handlers_arg.splits)
  with l w show ?thesis
    by (auto simp: as_Logger_def well_formed_def split: Option.bind_splits)
qed

lemma Logger__makeRecord_lists:
  "Logger__makeRecord C l msg level w = (res, w1) \<Longrightarrow> list_objects w1 = list_objects w"
  by (auto simp: Logger__makeRecord_def split: sum.splits)

lemma call_handle_lists:
  "call_handle C h r w = (res, w1) \<Longrightarrow> list_objects w1 = list_objects w"
  by (auto simp: call_handle_def)

lemma dispatch_lists:
  "dispatch C l level msg hs w = (out, w') \<Longrightarrow> list_objects w' = list_objects w"
proof (induction hs arbitrary: w)
  case Nil
  then show ?case by simp
next
  case (Cons h hs)
  obtain res w1 where m: "Logger__makeRecord C l msg level w = (res, w1)"
    by (cases "Logger__makeRecord C l msg level w") auto
  note m' = Logger__makeRecord_lists [OF m]
  show ?case
  proof (cases res)
    case (Inl e)
    with Cons.prems m m' show ?thesis by simp
  next
    case (Inr r)
    obtain res2 w2 where c: "call_handle C h r w1 = (res2, w2)"
      by (cases "call_handle C h r w1") auto
    note c' = call_handle_lists [OF c]
    show ?thesis
    proof (cases res2)
      case None
      with Cons.prems m Inr c have "dispatch C l level msg hs w2 = (out, w')" by simp
      from Cons.IH [OF this] c' m' show ?thesis by simp
    next
      case (Some e)
      with Cons.prems m Inr c c' m' show ?thesis by simp
    qed
  qed
qed

lemma Logger__log_well_formed:
  assumes "well_formed l w" and "Logger__log C l level msg w = (out, l', w')"
  shows "well_formed l' w'"
proof -
  from assms(2) have "list_objects w' = list_objects w"
    by (auto simp: Logger__log_def split: if_splits option.splits prod.splits sum.splits
        dest: Logger__makeRecord_lists dispatch_lists)
  moreover from assms(2) have "handlers l' = handlers l \<and> handlers_num l' = handlers_num l
      \<and> enqueue l' = enqueue l \<and> is_async l' = is_async l
      \<and> (queue l \<noteq> None \<longrightarrow> queue l' \<noteq> None)
      \<and> (async_queue l \<noteq> None \<longrightarrow> async_queue l' \<noteq> None)"
    by (auto simp: Logger__log_def split: if_splits option.splits prod.splits sum.splits)
  ultimately show ?thesis using assms(1) by (simp add: well_formed_def)
qed

lemma removeHandler_well_formed:
  assumes "well_formed l w" and "removeHandler C l sel w = (out, l', w')"
  shows "well_formed l' w'"
  using assms
  by (cases sel)
    (auto simp: removeHandler_def store_handlers_def well_formed_def Let_def
      split: option.splits)

lemma setLevelThreshold_well_formed:
  assumes "well_formed l w" and "setLevelThreshold l sel thr w = (out, l', w')"
  shows "well_formed l' w'"
  using assms
  by (cases sel)
    (auto simp: setLevelThreshold_def set_level_def well_formed_def Let_def
      split: option.splits)

lemma addHandler_well_formed:
  assumes "well_formed l w" and "addHandler l h w = (l', w')"
  shows "well_formed l' w'"
  using assms by (auto simp: addHandler_def store_handlers_def well_formed_def Let_def)

lemma perform_well_formed:
  assumes "well_formed l w" and "perform C c l w = (out, l', w')"
  shows "well_formed l' w'"
proof (cases c)
  case (Call_addHandler h)
  with assms show ?thesis
    by (auto split: prod.splits dest: addHandler_well_formed)
next
  case (Call_removeHandler sel)
  with assms show ?thesis by (auto dest: removeHandler_well_formed)
next
  case (Call_setLevelThreshold sel thr)
  with assms show ?thesis by (auto dest: setLevelThreshold_well_formed)
next
  case (Call_log level msg)
  with assms show ?thesis by (auto simp: log_def dest: Logger__log_well_formed)
next
  case (Call_trace msg)
  with assms show ?thesis by (auto simp: trace_def dest: Logger__log_well_formed)
next
  case (Call_debug msg)
  with assms show ?thesis by (auto simp: debug_def dest: Logger__log_well_formed)
next
  case (Call_info msg)
  with assms show ?thesis by (auto simp: info_def dest: Logger__log_well_formed)
next
  case (Call_warning msg)
  with assms show ?thesis by (auto simp: warning_def dest: Logger__log_well_formed)
next
  case (Call_error msg)
  with assms show ?thesis by (auto simp: error_def dest: Logger__log_well_formed)
next
  case (Call_fatal msg)
  with assms show ?thesis by (auto simp: fatal_def dest: Logger__log_well_formed)
next
  case (Call_exception msg is_fatal exc_info)
  with assms show ?thesis
    by (auto simp: exception_def Let_def split: if_splits dest: Logger__log_well_formed)
qed

lemma run_calls_well_formed:
  "well_formed l w \<Longrightarrow> run_calls C cs l w = (l', w') \<Longrightarrow> well_formed l' w'"
proof (induction cs arbitrary: l w)
  case Nil
  then show ?case by simp
next
  case (Cons c cs)
  obtain out l1 w1 where p: "perform C c l w = (out, l1, w1)"
    by (cases "perform C c l w") auto
  from Cons.prems(1) p have "well_formed l1 w1" by (rule perform_well_formed)
  moreover from Cons.prems(2) p have "run_calls C cs l1 w1 = (l', w')" by simp
  ultimately show ?case by (rule Cons.IH)
qed

lemma Logger_new_sync_mode:
  "Logger_new sync_mode 7 quiet_world = (Inr sync_logger, quiet_world)"
  by (simp add: Logger_new_def Logger_init_def wrap_handlers_def as_Logger_def blank_def
      sync_mode_def sync_logger_def quiet_world_def Let_def)

lemma Logger_new_other_mode:
  "Logger_new other_mode 8 quiet_world = (Inr other_logger, quiet_world)"
  by (simp add: Logger_new_def Logger_init_def wrap_handlers_def as_Logger_def blank_def
      other_mode_def other_logger_def quiet_world_def Let_def)

lemma run_calls_empties_list:
  "run_calls plain [Call_removeHandler (ByName ''nobody''), Call_addHandler 5,
       Call_setLevelThreshold (ByIndex 9) (Raw (IntNum 3)), Call_removeHandler (ByIndex (-1)),
       Call_removeHandler (ByHandler 0), Call_removeHandler (ByName ''file'')]
     sync_logger quiet_world
   = (sync_logger\<lparr>handlers_num := 0\<rparr>, emptied_world)"
  by (simp add: removeHandler_def setLevelThreshold_def addHandler_def store_handlers_def
      list_index_def same_handler_def sync_logger_def quiet_world_def emptied_world_def
      console_heap_def plain_def Let_def)

text \<open>
  C7, as stated, promises the agreement of the cached count with the list after every
  completed operation. The logger keeps the list object its caller passed (line 27), so a
  second logger built on the same list sees the list emptied by the first while its own
  count stays at 2; its \<open>removeHandler\<close> with an unknown name then raises and leaves count and
  list apart.
\<close>

theorem shared_list_count_stale:
  "Logger_new sync_mode 7 quiet_world = (Inr sync_logger, quiet_world)
   \<and> Logger_new other_mode 8 quiet_world = (Inr other_logger, quiet_world)
   \<and> run_calls plain [Call_removeHandler (ByName ''nobody''), Call_addHandler 5,
       Call_setLevelThreshold (ByIndex 9) (Raw (IntNum 3)), Call_removeHandler (ByIndex (-1)),
       Call_removeHandler (ByHandler 0), Call_removeHandler (ByName ''file'')]
       sync_logger quiet_world
     = (sync_logger\<lparr>handlers_num := 0\<rparr>, emptied_world)
   \<and> removeHandler plain other_logger (ByName ''nobody'') emptied_world
     = (Raised (ValueError (does_not_exist ''nobody'')), other_logger, emptied_world)
   \<and> handlers_num other_logger \<noteq> length (list_objects emptied_world (handlers other_logger))"
  using Logger_new_sync_mode Logger_new_other_mode run_calls_empties_list
  by (simp add: removeHandler_def other_logger_def emptied_world_def quiet_world_def Let_def)

text \<open>
  C7, amended: the cached count \<open>handlers_num\<close> is the length of the handler list after a
  construction that succeeds and then after every one of any sequence of calls of the
  logger's methods (each \<open>addHandler\<close>, \<open>removeHandler\<close> and \<open>setLevelThreshold\<close> among them,
  whether it returned or raised), as long as the list object is changed through these calls
  only; and on any logger, also one that shares its list, right after each \<open>addHandler\<close> and
  each \<open>removeHandler\<close> or \<open>setLevelThreshold\<close> that returns normally.
\<close>

theorem cached_count_consistent:
  "(Logger_new args u w0 = (Inr l0, w1) \<and> run_calls C cs l0 w1 = (l, w) \<longrightarrow>
      handlers_num l = length (list_objects w (handlers l)))
   \<and> (addHandler l2 h w2 = (l3, w3) \<longrightarrow> handlers_num l3 = length (list_objects w3 (handlers l3)))
   \<and> (removeHandler C l2 sel w2 = (Returned, l3, w3) \<longrightarrow>
        handlers_num l3 = length (list_objects w3 (handlers l3)))
   \<and> (setLevelThreshold l2 sel thr w2 = (Returned, l3, w3) \<longrightarrow>
        handlers_num l3 = length (list_objects w3 (handlers l3)))"
proof (intro conjI impI)
  assume a: "Logger_new args u w0 = (Inr l0, w1) \<and> run_calls C cs l0 w1 = (l, w)"
  then have "well_formed l0 w1" by (auto dest: Logger_new_well_formed)
  with a have "well_formed l w" by (auto dest: run_calls_well_formed)
  then show "handlers_num l = length (list_objects w (handlers l))" by (simp add: well_formed_def)
next
  assume "addHandler l2 h w2 = (l3, w3)"
  then show "handlers_num l3 = length (list_objects w3 (handlers l3))"
    by (auto simp: addHandler_def store_handlers_def Let_def)
next
  assume "removeHandler C l2 sel w2 = (Returned, l3, w3)"
  then show "handlers_num l3 = length (list_objects w3 (handlers l3))"
    by (cases sel)
      (auto simp: removeHandler_def store_handlers_def Let_def split: option.splits)
next
  assume "setLevelThreshold l2 sel thr w2 = (Returned, l3, w3)"
  then show "handlers_num l3 = length (list_objects w3 (handlers l3))"
    by (cases sel)
      (auto simp: setLevelThreshold_def set_level_def Let_def split: option.splits)
qed

theorem cached_count_consistent_witness:
  "Logger_new sync_mode 7 quiet_world = (Inr sync_logger, quiet_world)
   \<and> run_calls plain [Call_removeHandler (ByName ''nobody''), Call_addHandler 5,
       Call_setLevelThreshold (ByIndex 9) (Raw (IntNum 3)), Call_removeHandler (ByIndex (-1)),
       Call_removeHandler (ByHandler 0), Call_removeHandler (ByName ''file'')]
       sync_logger quiet_world
     = (sync_logger\<lparr>handlers_num := 0\<rparr>, emptied_world)
   \<and> handlers_num (sync_logger\<lparr>handlers_num := 0\<rparr>)
     = length (list_objects emptied_world (handlers (sync_logger\<lparr>handlers_num := 0\<rparr>)))
   \<and> removeHandler plain other_logger (ByIndex 0) emptied_world
     = (Raised (IndexError ''list assignment index out of range''), other_logger, emptied_world)
   \<and> addHandler other_logger 3 emptied_world
     = (other_logger\<lparr>handlers_num := 1\<rparr>,
        emptied_world\<lparr>list_objects := (list_objects emptied_world)(0 := [3])\<rparr>)
   \<and> removeHandler plain (other_logger\<lparr>handlers_num := 1\<rparr>) (ByIndex 0)
        (emptied_world\<lparr>list_objects := (list_objects emptied_world)(0 := [3])\<rparr>)
     = (Returned, other_logger\<lparr>handlers_num := 0\<rparr>, emptied_world)
   \<and> setLevelThreshold sync_logger (ByIndex 0) (Raw (IntNum 3)) quiet_world
     = (Returned, sync_logger,
        set_level 0 \<lparr>level_name = ''CUSTOM'', level_value = IntNum 3\<rparr> quiet_world)"
proof -
  have a: "addHandler other_logger 3 emptied_world
     = (other_logger\<lparr>handlers_num := 1\<rparr>,
        emptied_world\<lparr>list_objects := (list_objects emptied_world)(0 := [3])\<rparr>)"
    by (simp add: addHandler_def store_handlers_def other_logger_def emptied_world_def
        quiet_world_def Let_def)
  have r: "removeHandler plain (other_logger\<lparr>handlers_num := 1\<rparr>) (ByIndex 0)
        (emptied_world\<lparr>list_objects := (list_objects emptied_world)(0 := [3])\<rparr>)
     = (Returned, other_logger\<lparr>handlers_num := 0\<rparr>, emptied_world)"
    by (simp add: removeHandler_def store_handlers_def list_index_def other_logger_def
        emptied_world_def quiet_world_def Let_def)
  have x: "removeHandler plain other_logger (ByIndex 0) emptied_world
     = (Raised (IndexError ''list assignment index out of range''), other_logger, emptied_world)"
    by (simp add: removeHandler_def list_index_def other_logger_def emptied_world_def
        quiet_world_def Let_def)
  have t: "setLevelThreshold sync_logger (ByIndex 0) (Raw (IntNum 3)) quiet_world
     = (Returned, sync_logger,
        set_level 0 \<lparr>level_name = ''CUSTOM'', level_value = IntNum 3\<rparr> quiet_world)"
    by (simp add: setLevelThreshold_def list_index_def sync_logger_def quiet_world_def Let_def)
  have c: "handlers_num (sync_logger\<lparr>handlers_num := 0\<rparr>)
     = length (list_objects emptied_world (handlers (sync_logger\<lparr>handlers_num := 0\<rparr>)))"
    by (rule cached_count_consistent [THEN conjunct1, rule_format])
      (rule conjI [OF Logger_new_sync_mode run_calls_empties_list])
  from Logger_new_sync_mode run_calls_empties_list c x a r t show ?thesis
    by (intro conjI)
qed

subsection \<open>Logging without a handler\<close>

text \<open>
  C3, as stated, promises an error for every log call made while the handler set is empty.
  What \<open>__log\<close> tests is the cached count. On a logger that shares its list object with
  another logger the list can be emptied while the count stays at 2; \<open>info\<close> then passes the
  test, loops over no handler and returns: no error, no record.
\<close>

theorem shared_list_log_silent:
  "Logger_new sync_mode 7 quiet_world = (Inr sync_logger, quiet_world)
   \<and> Logger_new other_mode 8 quiet_world = (Inr other_logger, quiet_world)
   \<and> run_calls plain [Call_removeHandler (ByName ''nobody''), Call_addHandler 5,
       Call_setLevelThreshold (ByIndex 9) (Raw (IntNum 3)), Call_removeHandler (ByIndex (-1)),
       Call_removeHandler (ByHandler 0), Call_removeHandler (ByName ''file'')]
       sync_logger quiet_world
     = (sync_logger\<lparr>handlers_num := 0\<rparr>, emptied_world)
   \<and> list_objects emptied_world (handlers other_logger) = []
   \<and> info plain other_logger (Text ''x'') emptied_world = (Returned, other_logger, emptied_world)"
  using Logger_new_sync_mode Logger_new_other_mode run_calls_empties_list
  by (simp add: info_def Logger__log_def other_logger_def emptied_world_def quiet_world_def)

text \<open>
  C3, amended: on a logger obtained from the constructor and any sequence of calls of its
  methods, its list object being changed through these calls only, whenever the handler
  list is empty each of \<open>log\<close>, \<open>trace\<close>, \<open>debug\<close>, \<open>info\<close>, \<open>warning\<close>, \<open>error\<close>, \<open>fatal\<close> and
  \<open>exception\<close> raises the \<open>ValueError\<close> and leaves the logger and the world as they were: no
  record is built, none is queued, no handler is called.
\<close>

theorem log_without_handlers_raises:
  assumes "Logger_new args u w0 = (Inr l0, w1)"
    and "run_calls C cs l0 w1 = (l, w)"
    and "list_objects w (handlers l) = []"
  shows "log C l level msg w = (Raised (ValueError ''Logger needs at lease one handler''), l, w)
    \<and> trace C l msg w = (Raised (ValueError ''Logger needs at lease one handler''), l, w)
    \<and> debug C l msg w = (Raised (ValueError ''Logger needs at lease one handler''), l, w)
    \<and> info C l msg w = (Raised (ValueError ''Logger needs at lease one handler''), l, w)
    \<and> warning C l msg w = (Raised (ValueError ''Logger needs at lease one handler''), l, w)
    \<and> error C l msg w = (Raised (ValueError ''Logger needs at lease one handler''), l, w)
    \<and> fatal C l msg w = (Raised (ValueError ''Logger needs at lease one handler''), l, w)
    \<and> exception C l txt is_fatal exc_info w
        = (Raised (ValueError ''Logger needs at lease one handler''), l, w)"
proof -
  from assms(1) have "well_formed l0 w1" by (rule Logger_new_well_formed)
  then have "well_formed l w" using assms(2) by (rule run_calls_well_formed)
  with assms(3) have "handlers_num l = 0" by (simp add: well_formed_def)
  then show ?thesis
    by (simp add: log_def trace_def debug_def info_def warning_def error_def fatal_def
        exception_def Logger__log_def Let_def)
qed

theorem log_without_handlers_raises_witness:
  "Logger_new sync_mode 7 quiet_world = (Inr sync_logger, quiet_world)
   \<and> run_calls plain [Call_removeHandler (ByName ''nobody''), Call_addHandler 5,
       Call_setLevelThreshold (ByIndex 9) (Raw (IntNum 3)), Call_removeHandler (ByIndex (-1)),
       Call_removeHandler (ByHandler 0), Call_removeHandler (ByName ''file'')]
       sync_logger quiet_world
     = (sync_logger\<lparr>handlers_num := 0\<rparr>, emptied_world)
   \<and> list_objects emptied_world (handlers (sync_logger\<lparr>handlers_num := 0\<rparr>)) = []
   \<and> info plain (sync_logger\<lparr>handlers_num := 0\<rparr>) (Text ''x'') emptied_world
     = (Raised (ValueError ''Logger needs at lease one handler''),
        sync_logger\<lparr>handlers_num := 0\<rparr>, emptied_world)"
proof -
  have e: "list_objects emptied_world (handlers (sync_logger\<lparr>handlers_num := 0\<rparr>)) = []"
    by (simp add: sync_logger_def emptied_world_def)
  note t = log_without_handlers_raises [OF Logger_new_sync_mode run_calls_empties_list e,
      of "AsName ''INFO''" "Text ''x''" "''x''" False None]
  from t have "info plain (sync_logger\<lparr>handlers_num := 0\<rparr>) (Text ''x'') emptied_world
     = (Raised (ValueError ''Logger needs at lease one handler''),
        sync_logger\<lparr>handlers_num := 0\<rparr>, emptied_world)"
    by (elim conjE)
  with Logger_new_sync_mode run_calls_empties_list e show ?thesis
    by (intro conjI)
qed

subsection \<open>Removing a handler that is not there\<close>

text \<open>
  C6: \<open>removeHandler\<close> with a string that is the name of no handler in the list raises the
  not-found \<open>ValueError\<close>, and with a selector that is neither a handler, an \<open>int\<close> nor a
  string it raises the \<open>TypeError\<close>; either way the logger (its cached count), the list
  object (its content and order) and the rest of the world are what they were.
\<close>

theorem removeHandler_unknown_selector:
  "((\<forall>h \<in> set (list_objects w (handlers l)). handler_name (heap w h) \<noteq> s) \<longrightarrow>
      removeHandler C l (ByName s) w = (Raised (ValueError (does_not_exist s)), l, w))
   \<and> removeHandler C l (ByOther t) w
       = (Raised (TypeError (arg_handler_must_be ''Handler|int|str'' @ t)), l, w)"
proof -
  have "find (\<lambda>hdl. handler_name (heap w hdl) = s) (list_objects w (handlers l)) = None"
    if "\<forall>h \<in> set (list_objects w (handlers l)). handler_name (heap w h) \<noteq> s"
    using that by (simp add: find_None_iff)
  then show ?thesis
    by (simp add: removeHandler_def Let_def)
qed

theorem removeHandler_unknown_selector_witness:
  "list_all (\<lambda>h. handler_name (heap quiet_world h) \<noteq> ''nobody'')
     (list_objects quiet_world (handlers sync_logger))
   \<and> removeHandler plain sync_logger (ByName ''nobody'') quiet_world
       = (Raised (ValueError (does_not_exist ''nobody'')), sync_logger, quiet_world)
   \<and> removeHandler plain sync_logger (ByOther ''float'') quiet_world
       = (Raised (TypeError (arg_handler_must_be ''Handler|int|str'' @ ''float'')),
          sync_logger, quiet_world)"
proof -
  have h: "\<forall>h \<in> set (list_objects quiet_world (handlers sync_logger)).
             handler_name (heap quiet_world h) \<noteq> ''nobody''"
    by (simp add: sync_logger_def quiet_world_def console_heap_def)
  then have a: "list_all (\<lambda>h. handler_name (heap quiet_world h) \<noteq> ''nobody'')
     (list_objects quiet_world (handlers sync_logger))"
    by (simp add: list_all_iff)
  note t = removeHandler_unknown_selector
    [of quiet_world sync_logger "''nobody''" plain "''float''"]
  from t h have b: "removeHandler plain sync_logger (ByName ''nobody'') quiet_world
       = (Raised (ValueError (does_not_exist ''nobody'')), sync_logger, quiet_world)"
    by blast
  from t have c: "removeHandler plain sync_logger (ByOther ''float'') quiet_world
       = (Raised (TypeError (arg_handler_must_be ''Handler|int|str'' @ ''float'')),
          sync_logger, quiet_world)"
    by (elim conjE)
  from a b c show ?thesis by (intro conjI)
qed

subsection \<open>Thresholds given as raw numbers\<close>

text \<open>
  C9: \<open>setLevelThreshold\<close> with a raw number \<open>x\<close> (an \<open>int\<close> or a \<open>float\<close>) returns normally
  whenever the selector denotes a handler (an index in range, or the name of a handler in the
  list), and the threshold of that handler is then the level named \<open>CUSTOM\<close> whose numeric
  severity is \<open>x\<close>.
\<close>

theorem setLevelThreshold_wraps_raw_number:
  "(list_index (length (list_objects w (handlers l))) i = Some k \<longrightarrow>
      fst (setLevelThreshold l (ByIndex i) (Raw x) w) = Returned
      \<and> handler_level (heap (snd (snd (setLevelThreshold l (ByIndex i) (Raw x) w)))
                         (list_objects w (handlers l) ! k))
          = \<lparr>level_name = ''CUSTOM'', level_value = x\<rparr>)
   \<and> (find (\<lambda>hdl. handler_name (heap w hdl) = s) (list_objects w (handlers l)) = Some h \<longrightarrow>
      fst (setLevelThreshold l (ByName s) (Raw x) w) = Returned
      \<and> handler_level (heap (snd (snd (setLevelThreshold l (ByName s) (Raw x) w))) h)
          = \<lparr>level_name = ''CUSTOM'', level_value = x\<rparr>)"
  by (simp add: setLevelThreshold_def set_level_def Let_def)

theorem setLevelThreshold_wraps_raw_number_witness:
  "list_index (length (list_objects quiet_world (handlers sync_logger))) (-1) = Some 1
   \<and> handler_level (heap (snd (snd (setLevelThreshold sync_logger (ByIndex (-1))
                                        (Raw (IntNum 35)) quiet_world)))
                      (list_objects quiet_world (handlers sync_logger) ! 1))
       = \<lparr>level_name = ''CUSTOM'', level_value = IntNum 35\<rparr>
   \<and> find (\<lambda>hdl. handler_name (heap quiet_world hdl) = ''console'')
        (list_objects quiet_world (handlers sync_logger)) = Some 0
   \<and> handler_level (heap (snd (snd (setLevelThreshold sync_logger (ByName ''console'')
                                        (Raw (IntNum 35)) quiet_world))) 0)
       = \<lparr>level_name = ''CUSTOM'', level_value = IntNum 35\<rparr>"
proof -
  have i: "list_index (length (list_objects quiet_world (handlers sync_logger))) (-1) = Some 1"
    by (simp add: sync_logger_def quiet_world_def list_index_def)
  have f: "find (\<lambda>hdl. handler_name (heap quiet_world hdl) = ''console'')
        (list_objects quiet_world (handlers sync_logger)) = Some 0"
    by (simp add: sync_logger_def quiet_world_def console_heap_def)
  note t = setLevelThreshold_wraps_raw_number
    [of quiet_world sync_logger "-1" 1 "IntNum 35" "''console''" 0]
  from t i f show ?thesis by blast
qed

subsection \<open>Synchronous dispatch\<close>

lemma Logger__makeRecord_Inr:
  assumes "Logger__makeRecord C l msg level w = (Inr r, w1)"
  shows "r = length (built w) \<and> length (built w1) = Suc (length (built w))
         \<and> calls w1 = calls w \<and> heap w1 = heap w"
  using assms by (auto simp: Logger__makeRecord_def split: sum.splits)

lemma call_handle_world:
  assumes "call_handle C h r w = (res, w1)"
  shows "calls w1 = calls w @ [(h, r)] \<and> built w1 = built w \<and> heap w1 = heap w"
  using assms by (auto simp: call_handle_def)

lemma zip_upt_Cons:
  "zip (h # hs) [n ..< n + length (h # hs)] = (h, n) # zip hs [Suc n ..< Suc n + length hs]"
proof -
  have "[n ..< n + length (h # hs)] = n # [Suc n ..< n + length (h # hs)]"
    by (rule upt_conv_Cons) simp
  then show ?thesis by simp
qed

lemma dispatch_Returned:
  assumes "dispatch C l level msg hs w = (Returned, w')"
  shows "calls w' = calls w @ zip hs [length (built w) ..< length (built w) + length hs]
         \<and> length (built w') = length (built w) + length hs"
  using assms
proof (induction hs arbitrary: w)
  case Nil
  then show ?case by simp
next
  case (Cons h hs)
  from Cons.prems obtain r w1 w2 where
    m: "Logger__makeRecord C l msg level w = (Inr r, w1)" and
    c: "call_handle C h r w1 = (None, w2)" and
    d: "dispatch C l level msg hs w2 = (Returned, w')"
    by (auto split: prod.splits sum.splits option.splits)
  note m' = Logger__makeRecord_Inr [OF m] and c' = call_handle_world [OF c]
  from m' c' have b2: "length (built w2) = Suc (length (built w))" by simp
  from m' c' have c2: "calls w2 = calls w @ [(h, length (built w))]" by simp
  from Cons.IH [OF d] b2 c2 show ?case
    by (simp only: zip_upt_Cons) simp
qed




subsection \<open>How many records a log call builds\<close>


















subsection \<open>Logging the exception being handled\<close>

lemma Logger__makeRecord_AsLevel:
  "Logger__makeRecord C l msg (AsLevel lv) w =
     (Inr (length (built w)),
      w\<lparr>built := built w @
           [\<lparr>record_name = name l, record_level = lv, levelName = level_name lv, time = [],
             captured = capture C (length (built w)), message = msg\<rparr>]\<rparr>)"
  by (simp add: Logger__makeRecord_def)

lemma dispatch_built:
  assumes "dispatch C l (AsLevel lv) msg hs w = (out, w')"
  shows "\<exists>new. built w' = built w @ new
               \<and> (\<forall>rec \<in> set new. record_level rec = lv \<and> message rec = msg)"
  using assms
proof (induction hs arbitrary: w)
  case Nil
  then show ?case by simp
next
  case (Cons h hs)
  let ?rec = "\<lparr>record_name = name l, record_level = lv, levelName = level_name lv, time = [],
               captured = capture C (length (built w)), message = msg\<rparr>"
  let ?w1 = "w\<lparr>built := built w @ [?rec]\<rparr>"
  obtain res w2 where c: "call_handle C h (length (built w)) ?w1 = (res, w2)"
    by (cases "call_handle C h (length (built w)) ?w1") auto
  from call_handle_world [OF c] have b2: "built w2 = built w @ [?rec]" by simp
  show ?case
  proof (cases res)
    case None
    with Cons.prems c have "dispatch C l (AsLevel lv) msg hs w2 = (out, w')"
      by (simp add: Logger__makeRecord_AsLevel)
    from Cons.IH [OF this] obtain new where
      "built w' = built w2 @ new" "\<forall>rec \<in> set new. record_level rec = lv \<and> message rec = msg"
      by blast
    with b2 have "built w' = built w @ (?rec # new)
        \<and> (\<forall>rec \<in> set (?rec # new). record_level rec = lv \<and> message rec = msg)"
      by simp
    then show ?thesis by blast
  next
    case (Some e)
    with Cons.prems c have "w' = w2" by (simp add: Logger__makeRecord_AsLevel)
    with b2 have "built w' = built w @ [?rec]
        \<and> (\<forall>rec \<in> set [?rec]. record_level rec = lv \<and> message rec = msg)"
      by simp
    then show ?thesis by blast
  qed
qed

lemma dispatch_handlers_return:
  assumes "\<forall>h a r bs. handle C h a r bs = None"
  shows "fst (dispatch C l (AsLevel lv) msg hs w) = Returned"
  using assms
  by (induction hs arbitrary: w) (simp_all add: Logger__makeRecord_AsLevel call_handle_def)

lemma Logger__log_built:
  assumes "Logger__log C l (AsLevel lv) msg w = (out, l', w')"
  shows "\<exists>new. built w' = built w @ new
               \<and> (\<forall>rec \<in> set new. record_level rec = lv \<and> message rec = msg)"
proof -
  let ?rec = "\<lparr>record_name = name l, record_level = lv, levelName = level_name lv, time = [],
               captured = capture C (length (built w)), message = msg\<rparr>"
  consider (same) "w' = w" | (one) "w' = w\<lparr>built := built w @ [?rec]\<rparr>"
    | (loop) "dispatch C l (AsLevel lv) msg (list_objects w (handlers l)) w = (out, w')"
    using assms
    by (auto simp: Logger__log_def Logger__makeRecord_AsLevel
        split: if_splits option.splits prod.splits)
  then show ?thesis
  proof cases
    case same
    then have "built w' = built w @ []
        \<and> (\<forall>rec \<in> set []. record_level rec = lv \<and> message rec = msg)" by simp
    then show ?thesis by blast
  next
    case one
    then have "built w' = built w @ [?rec]
        \<and> (\<forall>rec \<in> set [?rec]. record_level rec = lv \<and> message rec = msg)" by simp
    then show ?thesis by blast
  next
    case loop
    then show ?thesis by (rule dispatch_built)
  qed
qed

lemma Logger__log_returns:
  assumes "well_formed l w" and "list_objects w (handlers l) \<noteq> []"
    and "\<forall>h a r bs. handle C h a r bs = None"
  shows "fst (Logger__log C l (AsLevel lv) msg w) = Returned
         \<and> length (built w) < length (built (snd (snd (Logger__log C l (AsLevel lv) msg w))))"
proof -
  from assms(1,2) have n: "handlers_num l \<noteq> 0" by (simp add: well_formed_def)
  show ?thesis
  proof (cases "enqueue l \<or> is_async l")
    case True
    with assms(1) n show ?thesis
      by (auto simp: Logger__log_def Logger__makeRecord_AsLevel well_formed_def)
  next
    case False
    obtain out w' where
      d: "dispatch C l (AsLevel lv) msg (list_objects w (handlers l)) w = (out, w')"
      by (cases "dispatch C l (AsLevel lv) msg (list_objects w (handlers l)) w") auto
    from dispatch_handlers_return [OF assms(3), of l lv msg "list_objects w (handlers l)" w] d
    have o: "out = Returned" by simp
    from dispatch_Returned [OF d [unfolded o]] assms(2)
    have "length (built w) < length (built w')" by simp
    with False n d o show ?thesis by (simp add: Logger__log_def)
  qed
qed

text \<open>
  C8: \<open>exception(message, is_fatal)\<close> is \<open>__log\<close> at level \<open>FATAL\<close> when \<open>is_fatal\<close> holds and at
  \<open>ERROR\<close> otherwise, of the text made of \<open>message\<close>, a newline and the extracted trace; every
  record the call builds has that level and that text. The logger is one obtained from the
  constructor and any sequence of method calls. When no exception is being handled
  (\<open>sys.exc_info()\<close> is empty), the logger has a handler and the handlers return, the call
  returns normally and has built a record.
\<close>

theorem exception_logs_at_chosen_level:
  assumes "Logger_new args u w0 = (Inr l0, w1)"
    and "run_calls C cs l0 w1 = (l, w)"
  shows "exception C l txt is_fatal exc w
           = Logger__log C l (AsLevel (Level C (if is_fatal then FATAL else ERROR)))
               (Text (txt @ [CHR 0x0A] @ ExtractException C exc)) w
    \<and> (\<exists>new. built (snd (snd (exception C l txt is_fatal exc w))) = built w @ new
            \<and> (\<forall>rec \<in> set new.
                  record_level rec = Level C (if is_fatal then FATAL else ERROR)
                  \<and> message rec = Text (txt @ [CHR 0x0A] @ ExtractException C exc)))
    \<and> (list_objects w (handlers l) \<noteq> [] \<and> (\<forall>h a r bs. handle C h a r bs = None) \<longrightarrow>
         fst (exception C l txt is_fatal None w) = Returned
         \<and> length (built w) < length (built (snd (snd (exception C l txt is_fatal None w)))))"
proof -
  from assms(1) have "well_formed l0 w1" by (rule Logger_new_well_formed)
  then have wf: "well_formed l w" using assms(2) by (rule run_calls_well_formed)
  have e: "exception C l txt is_fatal x w
           = Logger__log C l (AsLevel (Level C (if is_fatal then FATAL else ERROR)))
               (Text (txt @ [CHR 0x0A] @ ExtractException C x)) w" for x
    by (simp add: exception_def Let_def)
  obtain out l' w' where r: "Logger__log C l (AsLevel (Level C (if is_fatal then FATAL else ERROR)))
               (Text (txt @ [CHR 0x0A] @ ExtractException C exc)) w = (out, l', w')"
    by (metis prod_cases3)
  from Logger__log_built [OF r] r
  have b: "\<exists>new. built (snd (snd (exception C l txt is_fatal exc w))) = built w @ new
            \<and> (\<forall>rec \<in> set new.
                  record_level rec = Level C (if is_fatal then FATAL else ERROR)
                  \<and> message rec = Text (txt @ [CHR 0x0A] @ ExtractException C exc))"
    by (simp only: e snd_conv)
  have "fst (exception C l txt is_fatal None w) = Returned
         \<and> length (built w) < length (built (snd (snd (exception C l txt is_fatal None w))))"
    if "list_objects w (handlers l) \<noteq> []" "\<forall>h a r bs. handle C h a r bs = None"
    using Logger__log_returns [OF wf that] by (simp only: e)
  with e b show ?thesis by blast
qed

lemma run_calls_none:
  "run_calls plain [] sync_logger quiet_world = (sync_logger, quiet_world)"
  by simp

theorem exception_logs_at_chosen_level_witness:
  "Logger_new sync_mode 7 quiet_world = (Inr sync_logger, quiet_world)
   \<and> run_calls plain [] sync_logger quiet_world = (sync_logger, quiet_world)
   \<and> list_objects quiet_world (handlers sync_logger) \<noteq> []
   \<and> (\<forall>h a r bs. handle plain h a r bs = None)
   \<and> exception plain sync_logger ''boom'' True None quiet_world
     = (Returned, sync_logger,
        quiet_world\<lparr>built := [\<lparr>record_name = ''app'', record_level = FATAL_level,
                                levelName = ''FATAL'', time = [], captured = (),
                                message = Text (''boom'' @ [CHR 0x0A])\<rparr>,
                               \<lparr>record_name = ''app'', record_level = FATAL_level,
                                levelName = ''FATAL'', time = [], captured = (),
                                message = Text (''boom'' @ [CHR 0x0A])\<rparr>],
                     calls := [(0, 0), (1, 1)]\<rparr>)
   \<and> length (built quiet_world)
     < length (built (snd (snd (exception plain sync_logger ''boom'' True None quiet_world))))"
proof -
  have h: "list_objects quiet_world (handlers sync_logger) \<noteq> []"
    "\<forall>h a r bs. handle plain h a r bs = None"
    by (simp_all add: sync_logger_def quiet_world_def plain_def)
  have run: "exception plain sync_logger ''boom'' True None quiet_world
     = (Returned, sync_logger,
        quiet_world\<lparr>built := [\<lparr>record_name = ''app'', record_level = FATAL_level,
                                levelName = ''FATAL'', time = [], captured = (),
                                message = Text (''boom'' @ [CHR 0x0A])\<rparr>,
                               \<lparr>record_name = ''app'', record_level = FATAL_level,
                                levelName = ''FATAL'', time = [], captured = (),
                                message = Text (''boom'' @ [CHR 0x0A])\<rparr>],
                     calls := [(0, 0), (1, 1)]\<rparr>)"
    by (simp add: exception_def Logger__log_def Logger__makeRecord_def call_handle_def
        sync_logger_def quiet_world_def plain_def standard_level_def FATAL_level_def Let_def)
  from exception_logs_at_chosen_level [OF Logger_new_sync_mode run_calls_none,
      of "''boom''" True None] h
  have "length (built quiet_world)
     < length (built (snd (snd (exception plain sync_logger ''boom'' True None quiet_world))))"
    by blast
  with Logger_new_sync_mode run_calls_none h run show ?thesis by blast
qed

subsection \<open>Thread-backed delivery and \<open>close\<close>\<close>













end
